theory Spec2Isabelle
  imports Complex_Main
begin

section \<open>Data model (src/types.ts)\<close>

text \<open>
  A TypeScript \<open>number\<close> is modelled as an exact real number, the type the
  specification gives the fields (integer or real): every finite double is one, and the
  sizing code combines its inputs with \<open>+\<close>, \<open>-\<close>, \<open>*\<close>, \<open>/\<close>,
  \<open>Math.floor\<close> and \<open>Math.ceil\<close> only. The rounding of IEEE-754 arithmetic is not
  modelled; on integer inputs below \<open>2^53\<close> the integer-valued quantities of both
  calculators are computed exactly by doubles as well. The non-finite values are left
  out, except for the optional second argument of \<open>calculateFullMesh\<close>, whose
  truthiness test distinguishes \<open>NaN\<close>.
\<close>

type_synonym number = real

text \<open>The optional fields of \<open>TopologyMetrics.switchConfig\<close>; \<open>{}\<close> has none of them.\<close>

record SwitchConfig =
  leafs :: "number option"
  spines :: "number option"
  core :: "number option"
  meshSwitches :: "number option"
  userPortsPerSwitch :: "number option"

definition emptyConfig :: SwitchConfig where
  "emptyConfig =
     \<lparr>leafs = None, spines = None, core = None, meshSwitches = None,
      userPortsPerSwitch = None\<rparr>"

text \<open>
  A template literal is kept as its pieces: the literal text and the interpolated
  numbers. The conversion of a number to text (\<open>Number::toString\<close>) is a parameter
  of \<open>render\<close>.
\<close>

datatype fragment = Lit string | Num number

fun render :: "(number \<Rightarrow> string) \<Rightarrow> fragment list \<Rightarrow> string" where
  "render fmt [] = []"
| "render fmt (Lit s # fs) = s @ render fmt fs"
| "render fmt (Num n # fs) = fmt n @ render fmt fs"

record TopologyMetrics =
  name :: string
  totalSwitches :: number
  totalCables :: number
  avgHops :: number
  maxHops :: number
  totalPower :: number
  userCapacity :: number
  details :: "fragment list"
  possible :: bool
  switchConfig :: SwitchConfig

record NetworkConfig =
  numUsers :: number
  radix :: number
  powerPerSwitch :: number
  cablePowerClos :: number
  cablePowerMesh :: number
  meshFabricRatio :: number
  meshOneHopTraffic :: number

text \<open>
  \<open>parseFloat(x.toFixed(2))\<close>: the nearest multiple of \<open>1/100\<close>, a tie going to the
  larger magnitude (\<open>toFixed\<close> rounds the absolute value and picks the larger candidate);
  from \<open>10^21\<close> on \<open>toFixed\<close> prints the number itself.
\<close>

definition toFixed2 :: "number \<Rightarrow> number" where
  "toFixed2 x =
     (if 10 ^ 21 \<le> \<bar>x\<bar> then x
      else if x < 0 then - (of_int \<lfloor>(- x) * 100 + 1 / 2\<rfloor> / 100)
      else of_int \<lfloor>x * 100 + 1 / 2\<rfloor> / 100)"

section \<open>Folded Clos sizing (src/utils/networkMath.ts, calculateClos)\<close>

definition userPortsPerLeaf :: "NetworkConfig \<Rightarrow> int" where
  "userPortsPerLeaf config = \<lfloor>radix config / 2\<rfloor>"

definition numLeafs :: "NetworkConfig \<Rightarrow> int" where
  "numLeafs config = \<lceil>numUsers config / of_int (userPortsPerLeaf config)\<rceil>"

definition totalUserCapacity :: "NetworkConfig \<Rightarrow> int" where
  "totalUserCapacity config = numLeafs config * userPortsPerLeaf config"

definition maxUsers3Tier :: "NetworkConfig \<Rightarrow> number" where
  "maxUsers3Tier config = (radix config / 2) * (radix config / 2) * radix config"

text \<open>The hop model of lines 107-137; \<open>tiers\<close> is 2 or 3.\<close>

definition closHops :: "NetworkConfig \<Rightarrow> int \<Rightarrow> number" where
  "closHops config tiers =
     (if tiers = 2 then 2
      else
        (let leavesPerPod = \<lfloor>radix config / 2\<rfloor> in
         if numLeafs config > 1 then
           (let totalRemoteLeaves = numLeafs config - 1;
                intraPodLeaves = max 0 (min leavesPerPod (numLeafs config) - 1);
                interPodLeaves = max 0 (numLeafs config - leavesPerPod);
                pIntraPod = of_int intraPodLeaves / of_int totalRemoteLeaves;
                pInterPod = of_int interPodLeaves / of_int totalRemoteLeaves
            in (pIntraPod * 2) + (pInterPod * 4))
         else 0))"

text \<open>
  The common tail of \<open>calculateClos\<close> (lines 98-150): power, hops and the returned
  record, from the variables the two tier branches have set.
\<close>

definition closMetrics ::
  "NetworkConfig \<Rightarrow> int \<Rightarrow> int \<Rightarrow> int \<Rightarrow> fragment list \<Rightarrow> SwitchConfig \<Rightarrow> TopologyMetrics"
where
  "closMetrics config tiers totSwitches fabricCables dets swConfig =
     \<lparr>name = (if tiers = 2 then ''Folded Clos (2-Tier)'' else ''Folded Clos (3-Tier)''),
      totalSwitches = of_int totSwitches,
      totalCables = of_int fabricCables,
      avgHops = toFixed2 (closHops config tiers),
      maxHops = (if tiers = 2 then 2 else 4),
      totalPower = (of_int totSwitches * powerPerSwitch config)
                   + (of_int fabricCables * cablePowerClos config * 2),
      userCapacity = of_int (totalUserCapacity config),
      details = dets,
      possible = True,
      switchConfig = swConfig\<rparr>"

definition calculateClos :: "NetworkConfig \<Rightarrow> TopologyMetrics" where
  "calculateClos config =
     (if userPortsPerLeaf config = 0 then
        \<lparr>name = ''Folded Clos'', totalSwitches = 0, totalCables = 0, avgHops = 0,
         maxHops = 0, totalPower = 0, userCapacity = 0,
         details = [Lit ''Radix too small.''], possible = False,
         switchConfig = emptyConfig\<rparr>
      else if of_int (numLeafs config) \<le> radix config then
        (let totalUplinks = numLeafs config * userPortsPerLeaf config;
             numSpines = \<lceil>of_int totalUplinks / radix config\<rceil>
         in closMetrics config 2 (numLeafs config + numSpines) totalUplinks
              [Lit ''2-Tier: '', Num (of_int (numLeafs config)), Lit '' Leafs, '',
               Num (of_int numSpines), Lit '' Spines'']
              \<lparr>leafs = Some (of_int (numLeafs config)), spines = Some (of_int numSpines),
               core = None, meshSwitches = None,
               userPortsPerSwitch = Some (of_int (userPortsPerLeaf config))\<rparr>)
      else
        (let numAgg = numLeafs config;
             totalAggUplinks = numAgg * \<lfloor>radix config / 2\<rfloor>;
             numCore = \<lceil>of_int totalAggUplinks / radix config\<rceil>
         in if numUsers config > maxUsers3Tier config then
              \<lparr>name = ''Folded Clos (3-Tier)'', totalSwitches = 0, totalCables = 0,
               avgHops = 0, maxHops = 0, totalPower = 0, userCapacity = 0,
               details = [Lit ''Requires >3 Tiers. Max users '',
                          Num (maxUsers3Tier config), Lit ''.''],
               possible = False, switchConfig = emptyConfig\<rparr>
            else
              (let cablesT1T2 = numLeafs config * userPortsPerLeaf config;
                   cablesT2T3 = totalAggUplinks
               in closMetrics config 3 (numLeafs config + numAgg + numCore)
                    (cablesT1T2 + cablesT2T3)
                    [Lit ''3-Tier: '', Num (of_int (numLeafs config)), Lit '' Leafs, '',
                     Num (of_int numAgg), Lit '' Agg, '', Num (of_int numCore),
                     Lit '' Core'']
                    \<lparr>leafs = Some (of_int (numLeafs config)), spines = Some (of_int numAgg),
                     core = Some (of_int numCore), meshSwitches = None,
                     userPortsPerSwitch = Some (of_int (userPortsPerLeaf config))\<rparr>)))"

section \<open>Full mesh sizing (src/utils/networkMath.ts, calculateFullMesh)\<close>

text \<open>
  The optional argument \<open>requiredUserPorts?: number\<close>: left out, \<open>NaN\<close>, or a finite
  number. \<open>requiredUserPorts || numUsers\<close> takes \<open>numUsers\<close> for every falsy value:
  \<open>undefined\<close>, \<open>NaN\<close> and \<open>0\<close>.
\<close>

datatype optional_number = Omitted | NotANumber | Given number

fun targetUsers :: "NetworkConfig \<Rightarrow> optional_number \<Rightarrow> number" where
  "targetUsers config Omitted = numUsers config"
| "targetUsers config NotANumber = numUsers config"
| "targetUsers config (Given t) = (if t = 0 then numUsers config else t)"

text \<open>
  At \<open>meshFabricRatio = -1\<close> the quotient of the source is \<open>\<plusminus>Infinity\<close> or \<open>NaN\<close>, and
  HOL's is 0; the search returns the same record for both (one link per peer for a
  positive radix, nothing found otherwise).
\<close>

definition minFabricPorts :: "NetworkConfig \<Rightarrow> int" where
  "minFabricPorts config =
     \<lceil>(meshFabricRatio config * radix config) / (1 + meshFabricRatio config)\<rceil>"

definition linksPerPeer :: "int \<Rightarrow> int \<Rightarrow> int" where
  "linksPerPeer minFP s =
     (let l = \<lceil>of_int minFP / of_int (s - 1) :: real\<rceil> in if l < 1 then 1 else l)"

definition actualFabricPorts :: "int \<Rightarrow> int \<Rightarrow> int" where
  "actualFabricPorts minFP s = linksPerPeer minFP s * (s - 1)"

definition actualUserPorts :: "NetworkConfig \<Rightarrow> int \<Rightarrow> int \<Rightarrow> number" where
  "actualUserPorts config minFP s = radix config - of_int (actualFabricPorts minFP s)"

text \<open>The record built for an accepted switch count (lines 186-211).\<close>

definition meshMetrics :: "NetworkConfig \<Rightarrow> int \<Rightarrow> int \<Rightarrow> TopologyMetrics" where
  "meshMetrics config minFP s =
     (let totalCapacity = of_int s * actualUserPorts config minFP s;
          fabricCables = (of_int s * (of_int s - 1) / 2) * of_int (linksPerPeer minFP s);
          oneHopRatio = meshOneHopTraffic config / 100;
          hops = (oneHopRatio * 1) + ((1 - oneHopRatio) * 2)
      in \<lparr>name = ''Full Mesh'',
          totalSwitches = of_int s,
          totalCables = fabricCables,
          avgHops = toFixed2 hops,
          maxHops = 2,
          totalPower = (of_int s * powerPerSwitch config)
                       + (fabricCables * cablePowerMesh config * 2),
          userCapacity = totalCapacity,
          details = [Num (of_int s), Lit '' Switches, '',
                     Num (of_int (linksPerPeer minFP s)), Lit ''x LAG. (U:'',
                     Num (actualUserPorts config minFP s), Lit ''/F:'',
                     Num (of_int (actualFabricPorts minFP s)), Lit '')''],
          possible = True,
          switchConfig =
            \<lparr>leafs = None, spines = None, core = None, meshSwitches = Some (of_int s),
             userPortsPerSwitch = Some (actualUserPorts config minFP s)\<rparr>\<rparr>)"

text \<open>
  The loop \<open>for (let s = 2; s <= 500; s++)\<close> from the counter \<open>s\<close> on; the result is
  \<open>bestMetrics\<close>, \<open>None\<close> for \<open>null\<close>.
\<close>

function meshSearch ::
  "NetworkConfig \<Rightarrow> number \<Rightarrow> int \<Rightarrow> int \<Rightarrow> TopologyMetrics option"
where
  "meshSearch config target minFP s =
     (if s \<le> 500 then
        (if actualUserPorts config minFP s \<le> 0 then
           (if linksPerPeer minFP s = 1 then None
            else meshSearch config target minFP (s + 1))
         else if of_int s * actualUserPorts config minFP s \<ge> target then
           Some (meshMetrics config minFP s)
         else meshSearch config target minFP (s + 1))
      else None)"
  by pat_completeness auto
termination
  by (relation "measure (\<lambda>(config, target, minFP, s). nat (501 - s))") auto

declare meshSearch.simps [simp del]

definition calculateFullMesh :: "NetworkConfig \<Rightarrow> optional_number \<Rightarrow> TopologyMetrics" where
  "calculateFullMesh config requiredUserPorts =
     (case meshSearch config (targetUsers config requiredUserPorts) (minFabricPorts config) 2 of
        None \<Rightarrow>
          \<lparr>name = ''Full Mesh'', totalSwitches = 0, totalCables = 0, avgHops = 0,
           maxHops = 0, totalPower = 0, userCapacity = 0,
           details = [Lit ''Cannot support '', Num (targetUsers config requiredUserPorts),
                      Lit '' users with Radix '', Num (radix config), Lit '' & Ratio '',
                      Num (meshFabricRatio config), Lit ''.''],
           possible = False, switchConfig = emptyConfig\<rparr>
      | Some bestMetrics \<Rightarrow> bestMetrics)"

section \<open>Auxiliary definitions\<close>

text \<open>
  The value of the local constants \<open>numSpines\<close> (2-tier) and \<open>numCore\<close> (3-tier): both
  are \<open>Math.ceil\<close> of the same product over the radix, since \<open>userPortsPerLeaf\<close> is
  \<open>Math.floor(radix / 2)\<close> and \<open>numAgg\<close> is \<open>numLeafs\<close>.
\<close>

definition numSpines :: "NetworkConfig \<Rightarrow> int" where
  "numSpines c = \<lceil>of_int (numLeafs c * userPortsPerLeaf c) / radix c\<rceil>"

text \<open>
  The path condition under which the loop accepts the switch count \<open>s\<close>: the test
  \<open>actualUserPorts <= 0\<close> fails and \<open>totalCapacity >= targetUsers\<close> holds.
\<close>

definition accepts :: "NetworkConfig \<Rightarrow> number \<Rightarrow> int \<Rightarrow> int \<Rightarrow> bool" where
  "accepts c T m s \<longleftrightarrow>
     0 < actualUserPorts c m s \<and> T \<le> of_int s * actualUserPorts c m s"



text \<open>The shape of an infeasible result: every numeric field 0, \<open>switchConfig\<close> empty.\<close>

definition zeroed :: "TopologyMetrics \<Rightarrow> bool" where
  "zeroed r \<longleftrightarrow>
     totalSwitches r = 0 \<and> totalCables r = 0 \<and> avgHops r = 0 \<and> maxHops r = 0 \<and>
     totalPower r = 0 \<and> userCapacity r = 0 \<and> switchConfig r = emptyConfig"

subsection \<open>Concrete configurations\<close>

text \<open>The initial state of \<open>App.tsx\<close>.\<close>

definition cfgDefault :: NetworkConfig where
  "cfgDefault = \<lparr>numUsers = 1024, radix = 64, powerPerSwitch = 1700, cablePowerClos = 25,
     cablePowerMesh = 55 / 2, meshFabricRatio = 6 / 5, meshOneHopTraffic = 80\<rparr>"

definition cfgSmall :: NetworkConfig where
  "cfgSmall = \<lparr>numUsers = 6, radix = 4, powerPerSwitch = 1700, cablePowerClos = 25,
     cablePowerMesh = 55 / 2, meshFabricRatio = 1, meshOneHopTraffic = 80\<rparr>"

definition cfgRadixOne :: NetworkConfig where
  "cfgRadixOne = \<lparr>numUsers = 1024, radix = 1, powerPerSwitch = 1700, cablePowerClos = 25,
     cablePowerMesh = 55 / 2, meshFabricRatio = 1, meshOneHopTraffic = 80\<rparr>"

definition cfgTooBig :: NetworkConfig where
  "cfgTooBig = \<lparr>numUsers = 2048, radix = 16, powerPerSwitch = 1700, cablePowerClos = 25,
     cablePowerMesh = 55 / 2, meshFabricRatio = 1, meshOneHopTraffic = 80\<rparr>"

definition cfgThreeTier :: NetworkConfig where
  "cfgThreeTier = \<lparr>numUsers = 10, radix = 4, powerPerSwitch = 1700, cablePowerClos = 25,
     cablePowerMesh = 55 / 2, meshFabricRatio = 1, meshOneHopTraffic = 80\<rparr>"


section \<open>Lemmas on the Clos calculator\<close>

lemma userPortsPerLeaf_pos: "2 \<le> radix c \<Longrightarrow> 1 \<le> userPortsPerLeaf c"
  unfolding userPortsPerLeaf_def by linarith


lemma numLeafs_mono:
  assumes "0 < userPortsPerLeaf c" "numUsers c \<le> numUsers c'" "radix c' = radix c"
  shows "numLeafs c \<le> numLeafs c'"
proof -
  have u: "userPortsPerLeaf c' = userPortsPerLeaf c"
    using assms(3) by (simp add: userPortsPerLeaf_def)
  have "numUsers c / of_int (userPortsPerLeaf c) \<le> numUsers c' / of_int (userPortsPerLeaf c)"
    using assms(1,2) by (simp add: divide_right_mono)
  then show ?thesis
    unfolding numLeafs_def u by (rule ceiling_mono)
qed

lemma numLeafs_pos:
  assumes "0 < userPortsPerLeaf c" "0 < numUsers c"
  shows "1 \<le> numLeafs c"
proof -
  have "0 < numUsers c / of_int (userPortsPerLeaf c)"
    using assms by simp
  then have "0 < numLeafs c" unfolding numLeafs_def by simp
  then show ?thesis by simp
qed


subsection \<open>The outcomes of \<open>calculateClos\<close>\<close>

lemma clos_small:
  "userPortsPerLeaf c = 0 \<Longrightarrow> \<not> possible (calculateClos c)"
  by (simp add: calculateClos_def)

lemma clos_two_tier:
  assumes "userPortsPerLeaf c \<noteq> 0" "of_int (numLeafs c) \<le> radix c"
  shows "calculateClos c =
     closMetrics c 2 (numLeafs c + numSpines c) (numLeafs c * userPortsPerLeaf c)
       [Lit ''2-Tier: '', Num (of_int (numLeafs c)), Lit '' Leafs, '',
        Num (of_int (numSpines c)), Lit '' Spines'']
       \<lparr>leafs = Some (of_int (numLeafs c)), spines = Some (of_int (numSpines c)),
        core = None, meshSwitches = None,
        userPortsPerSwitch = Some (of_int (userPortsPerLeaf c))\<rparr>"
  using assms by (simp add: calculateClos_def numSpines_def Let_def)

lemma clos_three_tier:
  assumes "userPortsPerLeaf c \<noteq> 0" "\<not> of_int (numLeafs c) \<le> radix c"
    "\<not> numUsers c > maxUsers3Tier c"
  shows "calculateClos c =
     closMetrics c 3 (numLeafs c + numLeafs c + numSpines c)
       (numLeafs c * userPortsPerLeaf c + numLeafs c * userPortsPerLeaf c)
       [Lit ''3-Tier: '', Num (of_int (numLeafs c)), Lit '' Leafs, '',
        Num (of_int (numLeafs c)), Lit '' Agg, '', Num (of_int (numSpines c)),
        Lit '' Core'']
       \<lparr>leafs = Some (of_int (numLeafs c)), spines = Some (of_int (numLeafs c)),
        core = Some (of_int (numSpines c)), meshSwitches = None,
        userPortsPerSwitch = Some (of_int (userPortsPerLeaf c))\<rparr>"
  using assms by (simp add: calculateClos_def numSpines_def Let_def userPortsPerLeaf_def)

lemma clos_too_big:
  assumes "userPortsPerLeaf c \<noteq> 0" "\<not> of_int (numLeafs c) \<le> radix c"
    "numUsers c > maxUsers3Tier c"
  shows "calculateClos c =
     \<lparr>name = ''Folded Clos (3-Tier)'', totalSwitches = 0, totalCables = 0,
      avgHops = 0, maxHops = 0, totalPower = 0, userCapacity = 0,
      details = [Lit ''Requires >3 Tiers. Max users '', Num (maxUsers3Tier c), Lit ''.''],
      possible = False, switchConfig = emptyConfig\<rparr>"
  using assms by (simp add: calculateClos_def Let_def)

lemma numSpines_mono:
  assumes "2 \<le> radix c" "radix c' = radix c" "numLeafs c \<le> numLeafs c'"
  shows "numSpines c \<le> numSpines c'"
proof -
  have u: "userPortsPerLeaf c' = userPortsPerLeaf c"
    using assms(2) by (simp add: userPortsPerLeaf_def)
  have p: "0 \<le> userPortsPerLeaf c" using userPortsPerLeaf_pos[OF assms(1)] by simp
  have "numLeafs c * userPortsPerLeaf c \<le> numLeafs c' * userPortsPerLeaf c"
    using assms(3) p by (rule mult_right_mono)
  then have "(of_int (numLeafs c * userPortsPerLeaf c) :: real) \<le> of_int (numLeafs c' * userPortsPerLeaf c)"
    by (simp only: of_int_le_iff)
  then have "(of_int (numLeafs c * userPortsPerLeaf c) :: real) / radix c
      \<le> of_int (numLeafs c' * userPortsPerLeaf c) / radix c"
    using assms(1) by (simp add: divide_right_mono)
  then show ?thesis unfolding numSpines_def u assms(2) by (rule ceiling_mono)
qed


lemma clos_feasible_cases:
  assumes "possible (calculateClos c)"
  obtains
    (two) "userPortsPerLeaf c \<noteq> 0" "of_int (numLeafs c) \<le> radix c"
  | (three) "userPortsPerLeaf c \<noteq> 0" "\<not> of_int (numLeafs c) \<le> radix c"
      "\<not> numUsers c > maxUsers3Tier c"
proof (cases "userPortsPerLeaf c = 0")
  case True
  with assms clos_small show ?thesis by blast
next
  case u: False
  show ?thesis
  proof (cases "of_int (numLeafs c) \<le> radix c")
    case True
    with u two show ?thesis by blast
  next
    case l: False
    show ?thesis
    proof (cases "numUsers c > maxUsers3Tier c")
      case True
      with assms show ?thesis by (simp add: clos_too_big[OF u l])
    next
      case False
      with u l three show ?thesis by blast
    qed
  qed
qed

lemma clos_feasible_fields:
  assumes "possible (calculateClos c)"
  shows "userCapacity (calculateClos c) = of_int (totalUserCapacity c)"
    and "totalSwitches (calculateClos c) =
           of_int (if of_int (numLeafs c) \<le> radix c then numLeafs c + numSpines c
                   else numLeafs c + numLeafs c + numSpines c)"
    and "totalCables (calculateClos c) =
           of_int (if of_int (numLeafs c) \<le> radix c then numLeafs c * userPortsPerLeaf c
                   else numLeafs c * userPortsPerLeaf c + numLeafs c * userPortsPerLeaf c)"
  using assms
  by (cases rule: clos_feasible_cases; simp add: clos_two_tier clos_three_tier closMetrics_def)+





lemma radix_below_two: "0 \<le> radix c \<Longrightarrow> radix c < 2 \<Longrightarrow> userPortsPerLeaf c = 0"
  unfolding userPortsPerLeaf_def by linarith

lemma clos_infeasible_zeroed:
  assumes "\<not> possible (calculateClos c)"
  shows "zeroed (calculateClos c) \<and> render fmt (details (calculateClos c)) \<noteq> []"
proof (cases "userPortsPerLeaf c = 0")
  case True
  then show ?thesis by (simp add: calculateClos_def zeroed_def)
next
  case u: False
  show ?thesis
  proof (cases "of_int (numLeafs c) \<le> radix c")
    case True
    with u assms show ?thesis by (simp add: clos_two_tier closMetrics_def)
  next
    case l: False
    show ?thesis
    proof (cases "numUsers c > maxUsers3Tier c")
      case True
      then show ?thesis by (simp add: clos_too_big[OF u l] zeroed_def)
    next
      case False
      with u l assms show ?thesis by (simp add: clos_three_tier closMetrics_def)
    qed
  qed
qed

section \<open>Lemmas on the mesh search\<close>




lemma meshSearch_Some:
  "meshSearch c T m s = Some r \<Longrightarrow>
     \<exists>S. s \<le> S \<and> S \<le> 500 \<and> r = meshMetrics c m S \<and> accepts c T m S \<and>
         (\<forall>k. s \<le> k \<and> k < S \<longrightarrow> \<not> accepts c T m k)"
proof (induction c T m s rule: meshSearch.induct)
  case (1 c T m s)
  have le: "s \<le> 500"
    using "1.prems" by (subst (asm) meshSearch.simps) (simp split: if_splits)
  show ?case
  proof (cases "accepts c T m s")
    case True
    then have "meshSearch c T m s = Some (meshMetrics c m s)"
      using le by (subst meshSearch.simps) (simp add: accepts_def not_le)
    with "1.prems" have "r = meshMetrics c m s" by simp
    with True le show ?thesis by (intro exI[of _ s]) auto
  next
    case False
    show ?thesis
    proof (cases "actualUserPorts c m s \<le> 0")
      case u: True
      have nb: "linksPerPeer m s \<noteq> 1"
        using "1.prems" le u by (subst (asm) meshSearch.simps) (simp split: if_splits)
      have "meshSearch c T m (s + 1) = Some r"
        using "1.prems" le u nb by (subst (asm) meshSearch.simps) simp
      from "1.IH"(1)[OF le u nb this] obtain S where S:
        "s + 1 \<le> S" "S \<le> 500" "r = meshMetrics c m S" "accepts c T m S"
        "\<forall>k. s + 1 \<le> k \<and> k < S \<longrightarrow> \<not> accepts c T m k" by blast
      have "\<forall>k. s \<le> k \<and> k < S \<longrightarrow> \<not> accepts c T m k"
      proof (intro allI impI)
        fix k assume k: "s \<le> k \<and> k < S"
        show "\<not> accepts c T m k"
        proof (cases "k = s")
          case True with False show ?thesis by simp
        next
          case False with k have "s + 1 \<le> k \<and> k < S" by simp
          with S(5) show ?thesis by blast
        qed
      qed
      with S show ?thesis by (intro exI[of _ S]) simp
    next
      case u: False
      have small: "\<not> T \<le> of_int s * actualUserPorts c m s"
        using False u by (simp add: accepts_def)
      have "meshSearch c T m (s + 1) = Some r"
        using "1.prems" le u small by (subst (asm) meshSearch.simps) simp
      from "1.IH"(2)[OF le u small this] obtain S where S:
        "s + 1 \<le> S" "S \<le> 500" "r = meshMetrics c m S" "accepts c T m S"
        "\<forall>k. s + 1 \<le> k \<and> k < S \<longrightarrow> \<not> accepts c T m k" by blast
      have "\<forall>k. s \<le> k \<and> k < S \<longrightarrow> \<not> accepts c T m k"
      proof (intro allI impI)
        fix k assume k: "s \<le> k \<and> k < S"
        show "\<not> accepts c T m k"
        proof (cases "k = s")
          case True with False show ?thesis by simp
        next
          case False with k have "s + 1 \<le> k \<and> k < S" by simp
          with S(5) show ?thesis by blast
        qed
      qed
      with S show ?thesis by (intro exI[of _ S]) simp
    qed
  qed
qed


lemma mesh_fields:
  "totalSwitches (meshMetrics c m s) = of_int s"
  "userCapacity (meshMetrics c m s) = of_int s * actualUserPorts c m s"
  "totalCables (meshMetrics c m s) = (of_int s * (of_int s - 1) / 2) * of_int (linksPerPeer m s)"
  "userPortsPerSwitch (switchConfig (meshMetrics c m s)) = Some (actualUserPorts c m s)"
  "possible (meshMetrics c m s)"
  by (simp_all add: meshMetrics_def Let_def)




lemma mesh_infeasible_zeroed:
  assumes "\<not> possible (calculateFullMesh c arg)"
  shows "zeroed (calculateFullMesh c arg) \<and>
         render fmt (details (calculateFullMesh c arg)) \<noteq> []"
proof (cases "meshSearch c (targetUsers c arg) (minFabricPorts c) 2")
  case None
  then show ?thesis by (simp add: calculateFullMesh_def zeroed_def)
next
  case (Some r)
  from meshSearch_Some[OF Some] obtain S where "r = meshMetrics c (minFabricPorts c) S"
    by blast
  with Some assms show ?thesis by (simp add: calculateFullMesh_def mesh_fields)
qed

section \<open>The claims\<close>

subsection \<open>Full mesh\<close>






text \<open>
  Claim C9. Calling \<open>calculateFullMesh\<close> with \<open>requiredUserPorts = 0\<close> or \<open>NaN\<close>
  gives the result of leaving the argument out: the target becomes \<open>numUsers\<close>, so a
  zero target cannot be requested.
\<close>

theorem mesh_falsy_target:
  "calculateFullMesh c (Given 0) = calculateFullMesh c Omitted \<and>
   calculateFullMesh c NotANumber = calculateFullMesh c Omitted \<and>
   targetUsers c (Given 0) = numUsers c \<and> targetUsers c NotANumber = numUsers c \<and>
   targetUsers c Omitted = numUsers c"
proof -
  have zero: "targetUsers c (Given 0) = targetUsers c Omitted" by simp
  have nan: "targetUsers c NotANumber = targetUsers c Omitted" by simp
  show ?thesis unfolding calculateFullMesh_def zero nan by simp
qed

text \<open>Claim C9 at radix 4 with 6 users.\<close>

theorem mesh_falsy_target_witness:
  "calculateFullMesh cfgSmall (Given 0) = calculateFullMesh cfgSmall Omitted \<and>
   calculateFullMesh cfgSmall NotANumber = calculateFullMesh cfgSmall Omitted \<and>
   targetUsers cfgSmall (Given 0) = 6"
  using mesh_falsy_target[of cfgSmall] by (simp add: cfgSmall_def)

subsection \<open>Both calculators\<close>



text \<open>
  Claim C4. Both calculators are total (they are HOL functions; the loop is \<open>meshSearch\<close>,
  whose termination is proved). Whenever a result has \<open>possible = false\<close>, all its
  numeric fields are 0, \<open>switchConfig\<close> is the empty record and \<open>details\<close> renders to
  a non-empty text, whatever the number formatter. Each infeasibility is reported this way:
  the radix guard (a radix in \<open>[0, 2)\<close>), the 3-tier ceiling, and a mesh search that finds
  nothing, be it by exhausting the bound or by the early exit. In particular
  \<open>radix = 1\<close> gives a Clos result with \<open>possible = false\<close> and all counts 0.
\<close>

theorem infeasible_results_are_zeroed:
  "(\<not> possible (calculateClos c) \<longrightarrow>
      zeroed (calculateClos c) \<and> render fmt (details (calculateClos c)) \<noteq> []) \<and>
   (\<not> possible (calculateFullMesh c arg) \<longrightarrow>
      zeroed (calculateFullMesh c arg) \<and>
      render fmt (details (calculateFullMesh c arg)) \<noteq> []) \<and>
   (0 \<le> radix c \<and> radix c < 2 \<longrightarrow> \<not> possible (calculateClos c)) \<and>
   (userPortsPerLeaf c \<noteq> 0 \<and> radix c < of_int (numLeafs c) \<and> maxUsers3Tier c < numUsers c
      \<longrightarrow> \<not> possible (calculateClos c)) \<and>
   (meshSearch c (targetUsers c arg) (minFabricPorts c) 2 = None
      \<longrightarrow> \<not> possible (calculateFullMesh c arg)) \<and>
   (radix c = 1 \<longrightarrow> \<not> possible (calculateClos c) \<and> zeroed (calculateClos c))"
proof (intro conjI impI)
  show "0 \<le> radix c \<and> radix c < 2 \<Longrightarrow> \<not> possible (calculateClos c)"
    using clos_small radix_below_two by blast
  show "meshSearch c (targetUsers c arg) (minFabricPorts c) 2 = None \<Longrightarrow>
      \<not> possible (calculateFullMesh c arg)"
    by (simp add: calculateFullMesh_def)
  show "userPortsPerLeaf c \<noteq> 0 \<and> radix c < of_int (numLeafs c) \<and> maxUsers3Tier c < numUsers c
      \<Longrightarrow> \<not> possible (calculateClos c)"
    by (simp add: clos_too_big not_le)
  assume one: "radix c = 1"
  then have u: "userPortsPerLeaf c = 0" by (simp add: userPortsPerLeaf_def)
  then show "\<not> possible (calculateClos c)" by (rule clos_small)
  then show "zeroed (calculateClos c)" using clos_infeasible_zeroed by blast
qed (use clos_infeasible_zeroed mesh_infeasible_zeroed in blast)+

text \<open>
  Claim C4 at \<open>radix = 1\<close> (the radix guard, and a mesh search that stops at once) and
  at radix 16 with 2048 users (the 3-tier ceiling).
\<close>

theorem infeasible_results_are_zeroed_witness:
  "\<not> possible (calculateClos cfgRadixOne) \<and> zeroed (calculateClos cfgRadixOne) \<and>
   render (\<lambda>n. []) (details (calculateClos cfgRadixOne)) \<noteq> [] \<and>
   \<not> possible (calculateFullMesh cfgRadixOne Omitted) \<and>
   zeroed (calculateFullMesh cfgRadixOne Omitted) \<and>
   render (\<lambda>n. []) (details (calculateFullMesh cfgRadixOne Omitted)) \<noteq> [] \<and>
   0 \<le> radix cfgRadixOne \<and> radix cfgRadixOne < 2 \<and> radix cfgRadixOne = 1 \<and>
   meshSearch cfgRadixOne (targetUsers cfgRadixOne Omitted) (minFabricPorts cfgRadixOne) 2 = None \<and>
   userPortsPerLeaf cfgTooBig \<noteq> 0 \<and> radix cfgTooBig < of_int (numLeafs cfgTooBig) \<and>
   maxUsers3Tier cfgTooBig < numUsers cfgTooBig \<and>
   \<not> possible (calculateClos cfgTooBig) \<and> zeroed (calculateClos cfgTooBig)"
proof -
  have a1: "radix cfgRadixOne = 1" by (simp add: cfgRadixOne_def)
  have a2: "0 \<le> radix cfgRadixOne \<and> radix cfgRadixOne < 2" by (simp add: cfgRadixOne_def)
  have a3: "meshSearch cfgRadixOne (targetUsers cfgRadixOne Omitted)
              (minFabricPorts cfgRadixOne) 2 = None" by code_simp
  have b: "userPortsPerLeaf cfgTooBig \<noteq> 0 \<and> radix cfgTooBig < of_int (numLeafs cfgTooBig) \<and>
           maxUsers3Tier cfgTooBig < numUsers cfgTooBig" by code_simp
  from infeasible_results_are_zeroed[of cfgRadixOne "\<lambda>n. []" Omitted]
    infeasible_results_are_zeroed[of cfgTooBig "\<lambda>n. []" Omitted] a1 a2 a3 b
  show ?thesis by blast
qed

subsection \<open>Folded Clos\<close>

text \<open>
  Claim C5. For every configuration on which \<open>calculateClos\<close> reaches the 3-tier branch
  (the radix guard passed and \<open>numLeafs > radix\<close>): if
  \<open>numUsers > (radix/2)^2 * radix\<close> the result has \<open>possible = false\<close> and the details
  "Requires >3 Tiers" with that ceiling; otherwise the result is a feasible 3-tier one.
  In particular \<open>radix = 16\<close>, \<open>numUsers = 2048\<close> (ceiling 1024) is infeasible.
\<close>

theorem three_tier_ceiling:
  "(userPortsPerLeaf c \<noteq> 0 \<and> radix c < of_int (numLeafs c) \<longrightarrow>
      (if numUsers c > (radix c / 2)\<^sup>2 * radix c
       then \<not> possible (calculateClos c) \<and>
            details (calculateClos c) =
              [Lit ''Requires >3 Tiers. Max users '', Num ((radix c / 2)\<^sup>2 * radix c), Lit ''.'']
       else possible (calculateClos c) \<and> name (calculateClos c) = ''Folded Clos (3-Tier)'' \<and>
            maxHops (calculateClos c) = 4)) \<and>
   (radix c = 16 \<and> numUsers c = 2048 \<longrightarrow>
      \<not> possible (calculateClos c) \<and>
      details (calculateClos c) = [Lit ''Requires >3 Tiers. Max users '', Num 1024, Lit ''.''])"
proof (intro conjI impI)
  assume a: "userPortsPerLeaf c \<noteq> 0 \<and> radix c < of_int (numLeafs c)"
  then have u: "userPortsPerLeaf c \<noteq> 0" and l: "\<not> of_int (numLeafs c) \<le> radix c"
    by simp_all
  have m: "maxUsers3Tier c = (radix c / 2)\<^sup>2 * radix c"
    by (simp add: maxUsers3Tier_def power2_eq_square)
  show "if numUsers c > (radix c / 2)\<^sup>2 * radix c
       then \<not> possible (calculateClos c) \<and>
            details (calculateClos c) =
              [Lit ''Requires >3 Tiers. Max users '', Num ((radix c / 2)\<^sup>2 * radix c), Lit ''.'']
       else possible (calculateClos c) \<and> name (calculateClos c) = ''Folded Clos (3-Tier)'' \<and>
            maxHops (calculateClos c) = 4"
  proof (cases "numUsers c > maxUsers3Tier c")
    case True
    then show ?thesis unfolding m[symmetric] by (simp add: clos_too_big[OF u l])
  next
    case False
    then show ?thesis unfolding m[symmetric]
      by (simp add: clos_three_tier[OF u l] closMetrics_def)
  qed
next
  assume a: "radix c = 16 \<and> numUsers c = 2048"
  then have u: "userPortsPerLeaf c \<noteq> 0" by (simp add: userPortsPerLeaf_def)
  have l: "\<not> of_int (numLeafs c) \<le> radix c"
    using a by (simp add: numLeafs_def userPortsPerLeaf_def)
  have m: "maxUsers3Tier c = 1024" using a by (simp add: maxUsers3Tier_def)
  have big: "numUsers c > maxUsers3Tier c" using a m by simp
  show "\<not> possible (calculateClos c)" by (simp add: clos_too_big[OF u l big])
  show "details (calculateClos c) = [Lit ''Requires >3 Tiers. Max users '', Num 1024, Lit ''.'']"
    by (simp add: clos_too_big[OF u l big] m)
qed

text \<open>
  Claim C5 on both sides of the ceiling: radix 16 with 2048 users (above 1024), and radix 4
  with 10 users (5 leaves, ceiling 16).
\<close>

theorem three_tier_ceiling_witness:
  "userPortsPerLeaf cfgTooBig \<noteq> 0 \<and> radix cfgTooBig < of_int (numLeafs cfgTooBig) \<and>
   numUsers cfgTooBig > (radix cfgTooBig / 2)\<^sup>2 * radix cfgTooBig \<and>
   radix cfgTooBig = 16 \<and> numUsers cfgTooBig = 2048 \<and>
   \<not> possible (calculateClos cfgTooBig) \<and>
   details (calculateClos cfgTooBig) = [Lit ''Requires >3 Tiers. Max users '', Num 1024, Lit ''.''] \<and>
   userPortsPerLeaf cfgThreeTier \<noteq> 0 \<and> radix cfgThreeTier < of_int (numLeafs cfgThreeTier) \<and>
   \<not> numUsers cfgThreeTier > (radix cfgThreeTier / 2)\<^sup>2 * radix cfgThreeTier \<and>
   possible (calculateClos cfgThreeTier) \<and>
   name (calculateClos cfgThreeTier) = ''Folded Clos (3-Tier)''"
proof -
  have a: "userPortsPerLeaf cfgTooBig \<noteq> 0 \<and> radix cfgTooBig < of_int (numLeafs cfgTooBig)"
    by code_simp
  have a': "numUsers cfgTooBig > (radix cfgTooBig / 2)\<^sup>2 * radix cfgTooBig"
    by (simp add: cfgTooBig_def)
  have a'': "radix cfgTooBig = 16 \<and> numUsers cfgTooBig = 2048" by (simp add: cfgTooBig_def)
  have b: "userPortsPerLeaf cfgThreeTier \<noteq> 0 \<and>
           radix cfgThreeTier < of_int (numLeafs cfgThreeTier)" by code_simp
  have b': "\<not> numUsers cfgThreeTier > (radix cfgThreeTier / 2)\<^sup>2 * radix cfgThreeTier"
    by (simp add: cfgThreeTier_def)
  from three_tier_ceiling[of cfgTooBig] three_tier_ceiling[of cfgThreeTier] a a' a'' b b'
  show ?thesis by (simp del: One_nat_def)
qed

text \<open>
  Claim C6. \<open>calculateClos\<close> with \<open>radix = 64\<close> and \<open>numUsers = 1024\<close> returns a
  feasible 2-tier result with 32 user ports per leaf, 32 leaves, 16 spines, 48 switches,
  1024 cables (the total uplinks), \<open>avgHops = 2\<close> and \<open>maxHops = 2\<close>. In general,
  whenever \<open>numLeafs \<le> radix\<close> (past the radix guard) the 2-tier path is taken with
  \<open>spines = ceil(numLeafs * userPortsPerLeaf / radix)\<close>,
  \<open>totalSwitches = leafs + spines\<close> and \<open>totalCables = numLeafs * userPortsPerLeaf\<close>.
\<close>

theorem two_tier_sizing:
  "(radix c = 64 \<and> numUsers c = 1024 \<longrightarrow>
      userPortsPerLeaf c = 32 \<and> numLeafs c = 32 \<and>
      numLeafs c * userPortsPerLeaf c = 1024 \<and>
      name (calculateClos c) = ''Folded Clos (2-Tier)'' \<and>
      leafs (switchConfig (calculateClos c)) = Some 32 \<and>
      spines (switchConfig (calculateClos c)) = Some 16 \<and>
      userPortsPerSwitch (switchConfig (calculateClos c)) = Some 32 \<and>
      totalSwitches (calculateClos c) = 48 \<and> totalCables (calculateClos c) = 1024 \<and>
      avgHops (calculateClos c) = 2 \<and> maxHops (calculateClos c) = 2 \<and>
      possible (calculateClos c)) \<and>
   (userPortsPerLeaf c \<noteq> 0 \<and> of_int (numLeafs c) \<le> radix c \<longrightarrow>
      name (calculateClos c) = ''Folded Clos (2-Tier)'' \<and>
      spines (switchConfig (calculateClos c)) =
        Some (of_int \<lceil>of_int (numLeafs c * userPortsPerLeaf c) / radix c\<rceil>) \<and>
      totalSwitches (calculateClos c) =
        of_int (numLeafs c) + of_int \<lceil>of_int (numLeafs c * userPortsPerLeaf c) / radix c\<rceil> \<and>
      totalCables (calculateClos c) = of_int (numLeafs c * userPortsPerLeaf c))"
proof (intro conjI impI)
  assume a: "radix c = 64 \<and> numUsers c = 1024"
  have u: "userPortsPerLeaf c = 32" using a by (simp add: userPortsPerLeaf_def)
  have l: "numLeafs c = 32" using a by (simp add: numLeafs_def u)
  have s: "numSpines c = 16" using a by (simp add: numSpines_def u l)
  have u0: "userPortsPerLeaf c \<noteq> 0" using u by simp
  have le: "of_int (numLeafs c) \<le> radix c" using a l by simp
  note r = clos_two_tier[OF u0 le]
  show "userPortsPerLeaf c = 32" by (rule u)
  show "numLeafs c = 32" by (rule l)
  show "numLeafs c * userPortsPerLeaf c = 1024" by (simp add: l u)
  show "name (calculateClos c) = ''Folded Clos (2-Tier)''" by (simp add: r closMetrics_def)
  show "leafs (switchConfig (calculateClos c)) = Some 32" by (simp add: r closMetrics_def l)
  show "spines (switchConfig (calculateClos c)) = Some 16" by (simp add: r closMetrics_def s)
  show "userPortsPerSwitch (switchConfig (calculateClos c)) = Some 32"
    by (simp add: r closMetrics_def u)
  show "totalSwitches (calculateClos c) = 48" by (simp add: r closMetrics_def l s)
  show "totalCables (calculateClos c) = 1024" by (simp add: r closMetrics_def l u)
  show "avgHops (calculateClos c) = 2" by (simp add: r closMetrics_def closHops_def toFixed2_def)
  show "maxHops (calculateClos c) = 2" by (simp add: r closMetrics_def)
  show "possible (calculateClos c)" by (simp add: r closMetrics_def)
next
  assume a: "userPortsPerLeaf c \<noteq> 0 \<and> of_int (numLeafs c) \<le> radix c"
  then have r: "calculateClos c =
     closMetrics c 2 (numLeafs c + numSpines c) (numLeafs c * userPortsPerLeaf c)
       [Lit ''2-Tier: '', Num (of_int (numLeafs c)), Lit '' Leafs, '',
        Num (of_int (numSpines c)), Lit '' Spines'']
       \<lparr>leafs = Some (of_int (numLeafs c)), spines = Some (of_int (numSpines c)),
        core = None, meshSwitches = None,
        userPortsPerSwitch = Some (of_int (userPortsPerLeaf c))\<rparr>"
    by (intro clos_two_tier) simp_all
  show "name (calculateClos c) = ''Folded Clos (2-Tier)''" by (simp add: r closMetrics_def)
  show "spines (switchConfig (calculateClos c)) =
        Some (of_int \<lceil>of_int (numLeafs c * userPortsPerLeaf c) / radix c\<rceil>)"
    by (simp add: r closMetrics_def numSpines_def)
  show "totalSwitches (calculateClos c) =
        of_int (numLeafs c) + of_int \<lceil>of_int (numLeafs c * userPortsPerLeaf c) / radix c\<rceil>"
    by (simp add: r closMetrics_def numSpines_def)
  show "totalCables (calculateClos c) = of_int (numLeafs c * userPortsPerLeaf c)"
    by (simp add: r closMetrics_def)
qed

text \<open>Claim C6 at the initial configuration, which has radix 64 and 1024 users.\<close>

theorem two_tier_sizing_witness:
  "radix cfgDefault = 64 \<and> numUsers cfgDefault = 1024 \<and>
   userPortsPerLeaf cfgDefault \<noteq> 0 \<and> of_int (numLeafs cfgDefault) \<le> radix cfgDefault \<and>
   possible (calculateClos cfgDefault) \<and>
   name (calculateClos cfgDefault) = ''Folded Clos (2-Tier)'' \<and>
   spines (switchConfig (calculateClos cfgDefault)) = Some 16 \<and>
   totalSwitches (calculateClos cfgDefault) = 48 \<and>
   totalCables (calculateClos cfgDefault) = 1024"
proof -
  have a: "radix cfgDefault = 64 \<and> numUsers cfgDefault = 1024" by (simp add: cfgDefault_def)
  have b: "userPortsPerLeaf cfgDefault \<noteq> 0 \<and> of_int (numLeafs cfgDefault) \<le> radix cfgDefault"
    by code_simp
  from two_tier_sizing[of cfgDefault] a b show ?thesis by blast
qed

text \<open>
  Claim C7. For two configurations that differ in \<open>numUsers\<close> only, with
  \<open>n' \<ge> numUsers \<ge> 1\<close> and \<open>radix \<ge> 2\<close>: if \<open>calculateClos\<close> is feasible on
  both, then \<open>userCapacity\<close> and \<open>totalSwitches\<close> of the larger request are at least
  those of the smaller one, within a tier and across the 2-tier/3-tier transition.
\<close>

theorem clos_monotone_in_numUsers:
  assumes "2 \<le> radix c" and "1 \<le> numUsers c" and "numUsers c \<le> n'"
    and "possible (calculateClos c)" and "possible (calculateClos (c\<lparr>numUsers := n'\<rparr>))"
  shows "userCapacity (calculateClos c) \<le> userCapacity (calculateClos (c\<lparr>numUsers := n'\<rparr>)) \<and>
         totalSwitches (calculateClos c) \<le> totalSwitches (calculateClos (c\<lparr>numUsers := n'\<rparr>))"
proof -
  let ?c' = "c\<lparr>numUsers := n'\<rparr>"
  have r: "radix ?c' = radix c" by simp
  have u': "userPortsPerLeaf ?c' = userPortsPerLeaf c" by (simp add: userPortsPerLeaf_def)
  have u: "1 \<le> userPortsPerLeaf c" using assms(1) by (rule userPortsPerLeaf_pos)
  then have u0: "0 < userPortsPerLeaf c" by simp
  have l1: "1 \<le> numLeafs c" using u0 assms(2) by (intro numLeafs_pos) simp_all
  have ll: "numLeafs c \<le> numLeafs ?c'"
    using u0 assms(3) by (intro numLeafs_mono) simp_all
  have ss: "numSpines c \<le> numSpines ?c'"
    using assms(1) r ll by (rule numSpines_mono)
  have "totalUserCapacity c \<le> totalUserCapacity ?c'"
    unfolding totalUserCapacity_def u' using ll u0 by (simp add: mult_right_mono)
  then have cap: "userCapacity (calculateClos c) \<le> userCapacity (calculateClos ?c')"
    unfolding clos_feasible_fields(1)[OF assms(4)] clos_feasible_fields(1)[OF assms(5)]
    by (simp only: of_int_le_iff)
  have "(if of_int (numLeafs c) \<le> radix c then numLeafs c + numSpines c
         else numLeafs c + numLeafs c + numSpines c)
      \<le> (if of_int (numLeafs ?c') \<le> radix ?c' then numLeafs ?c' + numSpines ?c'
         else numLeafs ?c' + numLeafs ?c' + numSpines ?c')"
    using ll ss l1 by (auto simp: r)
  then have "totalSwitches (calculateClos c) \<le> totalSwitches (calculateClos ?c')"
    unfolding clos_feasible_fields(2)[OF assms(4)] clos_feasible_fields(2)[OF assms(5)]
    by (simp only: of_int_le_iff)
  with cap show ?thesis by simp
qed

text \<open>
  Claim C7 across the tier transition: radix 4 with 6 users is 2-tier, with 10 users
  3-tier.
\<close>

theorem clos_monotone_in_numUsers_witness:
  "2 \<le> radix cfgSmall \<and> 1 \<le> numUsers cfgSmall \<and> numUsers cfgSmall \<le> 10 \<and>
   possible (calculateClos cfgSmall) \<and> possible (calculateClos (cfgSmall\<lparr>numUsers := 10\<rparr>)) \<and>
   name (calculateClos cfgSmall) = ''Folded Clos (2-Tier)'' \<and>
   name (calculateClos (cfgSmall\<lparr>numUsers := 10\<rparr>)) = ''Folded Clos (3-Tier)'' \<and>
   userCapacity (calculateClos cfgSmall) \<le> userCapacity (calculateClos (cfgSmall\<lparr>numUsers := 10\<rparr>)) \<and>
   totalSwitches (calculateClos cfgSmall) \<le> totalSwitches (calculateClos (cfgSmall\<lparr>numUsers := 10\<rparr>))"
proof -
  have h1: "2 \<le> radix cfgSmall" by (simp add: cfgSmall_def)
  have h2: "1 \<le> numUsers cfgSmall" by (simp add: cfgSmall_def)
  have h3: "numUsers cfgSmall \<le> 10" by (simp add: cfgSmall_def)
  have h4: "possible (calculateClos cfgSmall)" by code_simp
  have h5: "possible (calculateClos (cfgSmall\<lparr>numUsers := 10\<rparr>))" by code_simp
  have n: "name (calculateClos cfgSmall) = ''Folded Clos (2-Tier)'' \<and>
     name (calculateClos (cfgSmall\<lparr>numUsers := 10\<rparr>)) = ''Folded Clos (3-Tier)''" by code_simp
  from clos_monotone_in_numUsers[OF h1 h2 h3 h4 h5] h1 h2 h3 h4 h5 n show ?thesis by blast
qed






end
